theory Spec2Isabelle
  imports Main
begin

section \<open>Python values used by \<open>homeassistant/exceptions.py\<close>\<close>

text \<open>
  Python \<open>str\<close> values are modelled as \<open>string\<close>; a \<open>char\<close> stands for a code
  point below 256. Python \<open>int\<close> values are unbounded and modelled as \<open>int\<close>.
\<close>

datatype py_error = NotImplementedError | RecursionError

text \<open>The single quote, double quote and backslash characters.\<close>

abbreviation squote :: char where
  "squote \<equiv> CHR 0x27"

abbreviation dquote :: char where
  "dquote \<equiv> CHR 0x22"

abbreviation backslash :: char where
  "backslash \<equiv> CHR 0x5C"

text \<open>\<open>str(n)\<close> for a Python integer: decimal digits, with a minus sign when negative.\<close>

definition digit_char :: "nat \<Rightarrow> char" where
  "digit_char d = ''0123456789'' ! (d mod 10)"

function str_nat :: "nat \<Rightarrow> string" where
  "str_nat n = (if n < 10 then [digit_char n] else str_nat (n div 10) @ [digit_char (n mod 10)])"
  by pat_completeness auto
termination
  by (relation "measure id") auto

declare str_nat.simps [simp del]

definition str_int :: "int \<Rightarrow> string" where
  "str_int i = (if i < 0 then CHR ''-'' # str_nat (nat (- i)) else str_nat (nat i))"

text \<open>\<open>s * n\<close> for a string \<open>s\<close> and an integer \<open>n\<close>: empty when \<open>n \<le> 0\<close>.\<close>

definition str_mul :: "string \<Rightarrow> int \<Rightarrow> string" where
  "str_mul s n = concat (replicate (nat n) s)"

text \<open>\<open>sep.join(xs)\<close>.\<close>

fun str_join :: "string \<Rightarrow> string list \<Rightarrow> string" where
  "str_join sep [] = []"
| "str_join sep [x] = x"
| "str_join sep (x # y # ys) = x @ sep @ str_join sep (y # ys)"

text \<open>
  A generator that has been run to its end: the values it yielded, in order, and the
  exception that ended the iteration, if any. \<open>list(g)\<close> returns the values when the
  iteration ended normally and raises the exception otherwise.
\<close>

type_synonym 'a generator = "'a list \<times> py_error option"

definition yielded :: "'a generator \<Rightarrow> 'a list" where
  "yielded g = fst g"

definition raised :: "'a generator \<Rightarrow> py_error option" where
  "raised g = snd g"

text \<open>\<open>yield x\<close> followed by the rest of the generator body.\<close>

definition yield_then :: "'a \<Rightarrow> 'a generator \<Rightarrow> 'a generator" where
  "yield_then x g = (x # fst g, snd g)"

text \<open>
  \<open>for item in items: yield from item\<close>: the sub-generators are drained in order; an
  exception raised by one of them ends the loop.
\<close>

fun yield_from_each :: "'a generator list \<Rightarrow> 'a generator" where
  "yield_from_each [] = ([], None)"
| "yield_from_each (g # gs) =
     (case snd g of
        Some e \<Rightarrow> (fst g, Some e)
      | None \<Rightarrow> (fst g @ fst (yield_from_each gs), snd (yield_from_each gs)))"

definition py_list :: "'a generator \<Rightarrow> py_error + 'a list" where
  "py_list g = (case snd g of Some e \<Rightarrow> Inl e | None \<Rightarrow> Inr (fst g))"

section \<open>The condition error tree\<close>

text \<open>
  The attrs classes \<open>ConditionError\<close> (\<open>type\<close>), \<open>ConditionErrorMessage\<close>
  (\<open>type\<close>, \<open>message\<close>), \<open>ConditionErrorIndex\<close> (\<open>type\<close>, \<open>index\<close>, \<open>total\<close>,
  \<open>error\<close>) and \<open>ConditionErrorContainer\<close> (\<open>type\<close>, \<open>errors\<close>). The generated
  constructors store their arguments without any validation, so every combination of
  field values is a value of the datatype.
\<close>

datatype ConditionError =
    ConditionError string
  | ConditionErrorMessage string string
  | ConditionErrorIndex string int int ConditionError
  | ConditionErrorContainer string "ConditionError list"

text \<open>\<open>ConditionError._indent\<close>.\<close>

definition ConditionError_indent :: "int \<Rightarrow> string \<Rightarrow> string" where
  "ConditionError_indent indent message = str_mul ''  '' indent @ message"

text \<open>
  \<open>output\<close>, one equation per class. The base class raises \<open>NotImplementedError\<close>.
\<close>

fun output_gen :: "ConditionError \<Rightarrow> int \<Rightarrow> string generator" where
  "output_gen (ConditionError type) indent = ([], Some NotImplementedError)"
| "output_gen (ConditionErrorMessage type message) indent =
     yield_then
       (ConditionError_indent indent (''In '' @ [squote] @ type @ [squote] @ '' condition: '' @ message))
       ([], None)"
| "output_gen (ConditionErrorIndex type index total' error) indent =
     yield_then
       (if total' > 1
        then ConditionError_indent indent
               (''In '' @ [squote] @ type @ [squote] @ '' (item '' @ str_int (index + 1)
                  @ '' of '' @ str_int total' @ ''):'')
        else ConditionError_indent indent (''In '' @ [squote] @ type @ [squote] @ '':''))
       (output_gen error (indent + 1))"
| "output_gen (ConditionErrorContainer type errors) indent =
     yield_from_each (map (\<lambda>item. output_gen item indent) errors)"

text \<open>\<open>ConditionError.__str__\<close>.\<close>

definition ConditionError_str :: "ConditionError \<Rightarrow> py_error + string" where
  "ConditionError_str self =
     (case py_list (output_gen self 0) of
        Inl e \<Rightarrow> Inl e
      | Inr lines \<Rightarrow> Inr (str_join ''\<newline>'' lines))"

text \<open>
  The trees the evaluation engine builds: any nesting of message, index and container
  nodes, with no instance of the abstract base class.
\<close>

fun concrete :: "ConditionError \<Rightarrow> bool" where
  "concrete (ConditionError type) = False"
| "concrete (ConditionErrorMessage type message) = True"
| "concrete (ConditionErrorIndex type index total' error) = concrete error"
| "concrete (ConditionErrorContainer type errors) = list_all concrete errors"

section \<open>The exceptions of the taxonomy\<close>

text \<open>
  The classes below inherit from \<open>Exception\<close> through \<open>HomeAssistantError\<close>, which adds
  nothing. What the runtime's \<open>BaseException\<close> contributes is written out: the
  constructor arguments are kept in \<open>args\<close>, and \<open>__str__\<close> is the empty string for no
  argument, \<open>str\<close> of the argument for one, and \<open>str\<close> of the tuple \<open>args\<close> (which is
  its \<open>repr\<close>) for more.

  An argument is a string or the exception object itself (two constructors below pass
  \<open>self\<close> on to \<open>super().__init__\<close>).
\<close>

datatype pyobj = PyStr string | PySelf

text \<open>
  \<open>repr(s)\<close> for a string: single quotes, unless the string has a single quote and no
  double quote; the quote character and the backslash are escaped, tab, newline and
  carriage return are written as backslash and \<open>t\<close>, \<open>n\<close>, \<open>r\<close>, and the other
  non-printable code points below 256 are written as backslash, \<open>x\<close> and two
  hexadecimal digits.
\<close>

definition hex_digit :: "nat \<Rightarrow> char" where
  "hex_digit d = ''0123456789abcdef'' ! (d mod 16)"

definition repr_quote :: "string \<Rightarrow> char" where
  "repr_quote s = (if squote \<in> set s \<and> dquote \<notin> set s then dquote else squote)"

definition printable :: "char \<Rightarrow> bool" where
  "printable c =
     (let n = (of_char c :: nat)
      in \<not> (n < 32 \<or> (127 \<le> n \<and> n \<le> 160) \<or> n = 173))"

definition repr_char :: "char \<Rightarrow> char \<Rightarrow> string" where
  "repr_char q c =
     (if c = q \<or> c = backslash then [backslash, c]
      else if c = CHR 0x09 then [backslash, CHR ''t'']
      else if c = CHR 0x0A then [backslash, CHR ''n'']
      else if c = CHR 0x0D then [backslash, CHR ''r'']
      else if \<not> printable c
        then [backslash, CHR ''x'', hex_digit (of_char c div 16), hex_digit (of_char c mod 16)]
      else [c])"

definition repr_str :: "string \<Rightarrow> string" where
  "repr_str s = (let q = repr_quote s in [q] @ concat (map (repr_char q) s) @ [q])"

text \<open>\<open>repr\<close> of a tuple, from the \<open>repr\<close> of its items.\<close>

definition tuple_repr :: "string list \<Rightarrow> string" where
  "tuple_repr rs =
     (case rs of
        [] \<Rightarrow> ''()''
      | [r] \<Rightarrow> ''('' @ r @ '',)''
      | _ \<Rightarrow> ''('' @ str_join '', '' rs @ '')'')"

text \<open>
  An exception object: the name of its class (\<open>__class__.__name__\<close>), its \<open>args\<close> and
  its \<open>__cause__\<close>. The cause is an exception raised elsewhere; it is represented by
  its string form, and is \<open>None\<close> when no cause is set.
\<close>

record BaseException =
  class_name :: string
  args :: "pyobj list"
  cause :: "string option"

text \<open>
  \<open>repr\<close> of an item of \<open>args\<close>, for an exception of class \<open>cls\<close> with two or more
  arguments. For the exception itself, \<open>BaseException.__repr__\<close> is the class name
  followed by \<open>repr(args)\<close>, and that inner \<open>repr\<close> of the tuple already being printed
  is cut to \<open>(...)\<close> by the runtime.
\<close>

fun arg_repr :: "string \<Rightarrow> pyobj \<Rightarrow> string" where
  "arg_repr cls (PyStr s) = repr_str s"
| "arg_repr cls PySelf = cls @ ''(...)''"

text \<open>
  \<open>BaseException.__str__\<close>. With the exception itself as its only argument the call
  recurses until the interpreter raises \<open>RecursionError\<close>.
\<close>

definition BaseException_str :: "'a BaseException_scheme \<Rightarrow> py_error + string" where
  "BaseException_str self =
     (case args self of
        [] \<Rightarrow> Inr []
      | [PyStr s] \<Rightarrow> Inr s
      | [PySelf] \<Rightarrow> Inl RecursionError
      | _ \<Rightarrow> Inr (tuple_repr (map (arg_repr (class_name self)) (args self))))"

text \<open>\<open>str(x)\<close> for \<open>x\<close> the value of \<open>__cause__\<close>: \<open>str(None)\<close> is the text \<open>None\<close>.\<close>

definition str_cause :: "string option \<Rightarrow> string" where
  "str_cause c = (case c of None \<Rightarrow> ''None'' | Some s \<Rightarrow> s)"

subsection \<open>IntegrationError and its subclasses\<close>

text \<open>
  \<open>PlatformNotReady\<close>, \<open>ConfigEntryNotReady\<close> and \<open>ConfigEntryAuthFailed\<close> define
  nothing of their own: a call of the class stores the arguments, and
  \<open>raise ... from c\<close> sets the cause.
\<close>

datatype IntegrationError_class =
  PlatformNotReady | ConfigEntryNotReady | ConfigEntryAuthFailed

fun IntegrationError_name :: "IntegrationError_class \<Rightarrow> string" where
  "IntegrationError_name PlatformNotReady = ''PlatformNotReady''"
| "IntegrationError_name ConfigEntryNotReady = ''ConfigEntryNotReady''"
| "IntegrationError_name ConfigEntryAuthFailed = ''ConfigEntryAuthFailed''"

definition IntegrationError_new :: "IntegrationError_class \<Rightarrow> pyobj list \<Rightarrow> BaseException" where
  "IntegrationError_new cls as =
     \<lparr>class_name = IntegrationError_name cls, args = as, cause = None\<rparr>"

definition raise_from :: "BaseException \<Rightarrow> string \<Rightarrow> BaseException" where
  "raise_from exc c = exc\<lparr>cause := Some c\<rparr>"

text \<open>\<open>IntegrationError.__str__\<close>: \<open>super().__str__() or str(self.__cause__)\<close>.\<close>

definition IntegrationError_str :: "BaseException \<Rightarrow> py_error + string" where
  "IntegrationError_str self =
     (case BaseException_str self of
        Inl e \<Rightarrow> Inl e
      | Inr s \<Rightarrow> if s \<noteq> [] then Inr s else Inr (str_cause (cause self)))"

subsection \<open>Unauthorized and UnknownUser\<close>

text \<open>
  Modelled from the spec: \<open>Context\<close> is declared in \<open>homeassistant/core.py\<close>, which is
  not part of the source at hand; the constructor reads its \<open>user_id\<close> only.
\<close>

record Context =
  user_id :: "string option"

datatype Unauthorized_class = Unauthorized | UnknownUser

fun Unauthorized_name :: "Unauthorized_class \<Rightarrow> string" where
  "Unauthorized_name Unauthorized = ''Unauthorized''"
| "Unauthorized_name UnknownUser = ''UnknownUser''"

record Unauthorized_exc = BaseException +
  context' :: "Context option"
  user_id :: "string option"
  entity_id :: "string option"
  config_entry_id :: "string option"
  perm_category :: "string option"
  permission :: "string option"

text \<open>\<open>Unauthorized.__init__\<close>, for an object of class \<open>cls\<close>; an argument left out is \<open>None\<close>.\<close>

definition Unauthorized_init ::
  "Unauthorized_class \<Rightarrow> Context option \<Rightarrow> string option \<Rightarrow> string option \<Rightarrow> string option
     \<Rightarrow> string option \<Rightarrow> string option \<Rightarrow> Unauthorized_exc" where
  "Unauthorized_init cls ctx uid eid ceid pcat perm =
     \<lparr>class_name = Unauthorized_name cls,
      args = [PyStr (Unauthorized_name cls)],
      cause = None,
      context' = ctx,
      user_id = (case (uid, ctx) of (None, Some c) \<Rightarrow> Context.user_id c | _ \<Rightarrow> uid),
      entity_id = eid,
      config_entry_id = ceid,
      perm_category = pcat,
      permission = perm\<rparr>"

subsection \<open>ServiceNotFound\<close>

record ServiceNotFound_exc = BaseException +
  domain :: string
  service :: string

definition ServiceNotFound_init :: "string \<Rightarrow> string \<Rightarrow> ServiceNotFound_exc" where
  "ServiceNotFound_init d s =
     \<lparr>class_name = ''ServiceNotFound'',
      args = [PySelf, PyStr (''Service '' @ d @ ''.'' @ s @ '' not found'')],
      cause = None,
      domain = d,
      service = s\<rparr>"

text \<open>\<open>ServiceNotFound.__str__\<close>.\<close>

definition ServiceNotFound_str :: "ServiceNotFound_exc \<Rightarrow> string" where
  "ServiceNotFound_str self = ''Unable to find service '' @ domain self @ ''.'' @ service self"

subsection \<open>MaxLengthExceeded\<close>

record MaxLengthExceeded_exc = BaseException +
  value' :: string
  property_name :: string
  max_length :: int

text \<open>\<open>MaxLengthExceeded.__init__\<close>. The class defines no \<open>__str__\<close> of its own.\<close>

definition MaxLengthExceeded_init :: "string \<Rightarrow> string \<Rightarrow> int \<Rightarrow> MaxLengthExceeded_exc" where
  "MaxLengthExceeded_init v p l =
     \<lparr>class_name = ''MaxLengthExceeded'',
      args = [PySelf,
              PyStr (''Value '' @ v @ '' for property '' @ p @ '' has a max length of ''
                     @ str_int l @ '' characters'')],
      cause = None,
      value' = v,
      property_name = p,
      max_length = l\<rparr>"

section \<open>Indentation and the generator combinators\<close>

lemma str_mul_spaces: "str_mul ''  '' n = replicate (2 * nat n) CHR '' ''"
proof -
  have "concat (replicate m ''  '') = replicate (2 * m) CHR '' ''" for m :: nat
    by (induction m) simp_all
  then show ?thesis by (simp add: str_mul_def)
qed

lemma indent_spaces:
  "ConditionError_indent n s = replicate (2 * nat n) CHR '' '' @ s"
  by (simp add: ConditionError_indent_def str_mul_spaces)

lemma indent_add:
  assumes "0 \<le> j" "0 \<le> k"
  shows "ConditionError_indent (j + k) s =
           replicate (nat (2 * k)) CHR '' '' @ ConditionError_indent j s"
proof -
  have "2 * nat (j + k) = nat (2 * k) + 2 * nat j"
    using assms by (simp add: nat_add_distrib nat_mult_distrib)
  then show ?thesis
    by (simp add: indent_spaces replicate_add)
qed

text \<open>When no sub-generator raises, the loop yields the concatenation of their values.\<close>

lemma yield_from_each_normal:
  "\<forall>g \<in> set gs. snd g = None \<Longrightarrow> yield_from_each gs = (concat (map fst gs), None)"
  by (induction gs) auto

text \<open>Mapping a function over the yielded values commutes with the loop.\<close>

lemma yield_from_each_map:
  "yield_from_each (map (\<lambda>g. (map f (fst g), snd g)) gs) =
     (map f (fst (yield_from_each gs)), snd (yield_from_each gs))"
  by (induction gs) (auto split: option.splits)

section \<open>Rendering of the condition error tree\<close>

text \<open>The generator of a tree without abstract nodes ends normally.\<close>

lemma concrete_raised: "concrete t \<Longrightarrow> snd (output_gen t k) = None"
proof (induction t arbitrary: k)
  case (ConditionErrorContainer ty es)
  have "\<forall>g \<in> set (map (\<lambda>item. output_gen item k) es). snd g = None"
    using ConditionErrorContainer by (auto simp: list_all_iff)
  then show ?case
    by (simp add: yield_from_each_normal)
qed (auto simp: yield_then_def)

lemma container_concrete:
  assumes "list_all concrete es"
  shows "output_gen (ConditionErrorContainer ty es) k =
           (concat (map (\<lambda>e. fst (output_gen e k)) es), None)"
proof -
  have "\<forall>g \<in> set (map (\<lambda>item. output_gen item k) es). snd g = None"
    using assms by (auto simp: list_all_iff concrete_raised)
  then show ?thesis
    by (simp add: yield_from_each_normal comp_def)
qed

text \<open>
  Raising the indent of a whole tree by \<open>k\<close> levels, from a non-negative level \<open>j\<close>,
  prepends \<open>2k\<close> spaces to every line and changes nothing else.
\<close>

lemma output_shift:
  assumes "0 \<le> k"
  shows "0 \<le> j \<Longrightarrow> output_gen t (j + k) =
           (map ((@) (replicate (nat (2 * k)) CHR '' '')) (fst (output_gen t j)),
            snd (output_gen t j))"
proof (induction t arbitrary: j)
  case (ConditionError ty)
  show ?case by simp
next
  case (ConditionErrorMessage ty m)
  then show ?case using assms by (simp add: yield_then_def indent_add)
next
  case (ConditionErrorIndex ty i n e)
  have "output_gen e (j + k + 1) = output_gen e ((j + 1) + k)"
    by (simp add: add.commute add.left_commute)
  also have "\<dots> = (map ((@) (replicate (nat (2 * k)) CHR '' '')) (fst (output_gen e (j + 1))),
                     snd (output_gen e (j + 1)))"
    using ConditionErrorIndex.IH [of "j + 1"] ConditionErrorIndex.prems by simp
  finally show ?case
    using assms ConditionErrorIndex.prems by (simp add: yield_then_def indent_add)
next
  case (ConditionErrorContainer ty es)
  have "map (\<lambda>item. output_gen item (j + k)) es =
        map (\<lambda>g. (map ((@) (replicate (nat (2 * k)) CHR '' '')) (fst g), snd g))
          (map (\<lambda>item. output_gen item j) es)"
    using ConditionErrorContainer by simp
  then show ?case
    by (simp only: output_gen.simps yield_from_each_map)
qed

text \<open>
  Claim C1. For an index node with type \<open>t\<close>, index \<open>i\<close>, total \<open>n\<close> and inner error
  \<open>e\<close>, and any indent \<open>k\<close>: the first line yielded is \<open>In 't':\<close> when \<open>n = 1\<close> and
  \<open>In 't' (item i+1 of n):\<close> when \<open>n > 1\<close>, after the indent prefix of \<open>2k\<close> spaces (no
  space for a negative \<open>k\<close>); the remaining lines are those of the inner error at indent
  \<open>k + 1\<close>, and the iteration ends as the inner one does.
\<close>

theorem ConditionErrorIndex_output:
  "(n = 1 \<longrightarrow>
      hd (yielded (output_gen (ConditionErrorIndex t i n e) k)) =
        replicate (2 * nat k) CHR '' '' @ ''In '' @ [squote] @ t @ [squote] @ '':'')
   \<and> (1 < n \<longrightarrow>
      hd (yielded (output_gen (ConditionErrorIndex t i n e) k)) =
        replicate (2 * nat k) CHR '' '' @ ''In '' @ [squote] @ t @ [squote] @ '' (item ''
          @ str_int (i + 1) @ '' of '' @ str_int n @ ''):'')
   \<and> yielded (output_gen (ConditionErrorIndex t i n e) k) \<noteq> []
   \<and> tl (yielded (output_gen (ConditionErrorIndex t i n e) k)) = yielded (output_gen e (k + 1))
   \<and> raised (output_gen (ConditionErrorIndex t i n e) k) = raised (output_gen e (k + 1))"
  by (simp add: yielded_def raised_def yield_then_def indent_spaces)

theorem ConditionErrorIndex_output_witness:
  "hd (yielded (output_gen (ConditionErrorIndex ''and'' 0 1
         (ConditionErrorMessage ''state'' ''off'')) 2)) = ''    In 'and':''
   \<and> hd (yielded (output_gen (ConditionErrorIndex ''and'' 1 3
         (ConditionErrorMessage ''state'' ''off'')) 0)) = ''In 'and' (item 2 of 3):''
   \<and> tl (yielded (output_gen (ConditionErrorIndex ''and'' 1 3
         (ConditionErrorMessage ''state'' ''off'')) 0)) = [''  In 'state' condition: off'']"
proof -
  let ?m = "ConditionErrorMessage ''state'' ''off''"
  have e1: "hd (yielded (output_gen (ConditionErrorIndex ''and'' 0 1 ?m) 2)) = ''    In 'and':''"
    by code_simp
  have e2: "hd (yielded (output_gen (ConditionErrorIndex ''and'' 1 3 ?m) 0)) =
              ''In 'and' (item 2 of 3):''"
    by code_simp
  have e3: "tl (yielded (output_gen (ConditionErrorIndex ''and'' 1 3 ?m) 0)) =
              [''  In 'state' condition: off'']"
    by code_simp
  from ConditionErrorIndex_output [of 1 "''and''" 0 ?m 2]
    ConditionErrorIndex_output [of 3 "''and''" 1 ?m 0] e1 e2 e3
  show ?thesis by simp
qed

text \<open>
  Claim C2. A message node with type \<open>t\<close> and message \<open>m\<close> yields exactly one line:
  \<open>In 't' condition: m\<close> at indent 0, and the same text after \<open>2n\<close> spaces at indent
  \<open>n\<close> (no space for a negative \<open>n\<close>).
\<close>

theorem ConditionErrorMessage_output:
  "output_gen (ConditionErrorMessage t m) 0 =
     ([''In '' @ [squote] @ t @ [squote] @ '' condition: '' @ m], None)
   \<and> output_gen (ConditionErrorMessage t m) n =
     ([replicate (2 * nat n) CHR '' '' @ ''In '' @ [squote] @ t @ [squote] @ '' condition: '' @ m],
      None)"
  by (simp add: yield_then_def indent_spaces)

text \<open>
  Claim C3. A container whose children are trees of message, index and container nodes
  yields, at indent \<open>k\<close>, the concatenation of its children's lines at the same indent
  \<open>k\<close>, in order, with no line of its own, and ends normally; an empty container yields
  no line.
\<close>

theorem ConditionErrorContainer_output:
  assumes "list_all concrete es"
  shows "yielded (output_gen (ConditionErrorContainer t es) k) =
           concat (map (\<lambda>e. yielded (output_gen e k)) es)
         \<and> raised (output_gen (ConditionErrorContainer t es) k) = None
         \<and> output_gen (ConditionErrorContainer t []) k = ([], None)"
proof -
  have "output_gen (ConditionErrorContainer t es) k =
          (concat (map (\<lambda>e. fst (output_gen e k)) es), None)"
    using assms by (rule container_concrete)
  then show ?thesis
    by (simp add: yielded_def raised_def del: output_gen.simps)
       (simp add: yielded_def)
qed

theorem ConditionErrorContainer_output_witness:
  "list_all concrete [ConditionErrorMessage ''state'' ''entity unavailable'',
                      ConditionErrorMessage ''time'' ''not in range'']
   \<and> yielded (output_gen (ConditionErrorContainer ''or''
        [ConditionErrorMessage ''state'' ''entity unavailable'',
         ConditionErrorMessage ''time'' ''not in range'']) 0) =
       [''In 'state' condition: entity unavailable'', ''In 'time' condition: not in range'']"
proof -
  let ?es = "[ConditionErrorMessage ''state'' ''entity unavailable'',
              ConditionErrorMessage ''time'' ''not in range'']"
  have c: "list_all concrete ?es" by simp
  have e: "concat (map (\<lambda>e. yielded (output_gen e 0)) ?es) =
             [''In 'state' condition: entity unavailable'', ''In 'time' condition: not in range'']"
    by code_simp
  from ConditionErrorContainer_output [OF c, of "''or''" 0] e c
  show ?thesis by simp
qed

text \<open>
  Claim C4. For every tree of message, index and container nodes, the string form is
  the lines of \<open>output(0)\<close> joined with the newline character.
\<close>

theorem ConditionError_str_join:
  assumes "concrete t"
  shows "ConditionError_str t = Inr (str_join ''\<newline>'' (yielded (output_gen t 0)))"
  using concrete_raised [OF assms, of 0]
  by (simp add: ConditionError_str_def py_list_def yielded_def)

theorem ConditionError_str_join_witness:
  "concrete (ConditionErrorIndex ''and'' 1 3
      (ConditionErrorMessage ''numeric_state'' ''value 12 is not below 10''))
   \<and> ConditionError_str (ConditionErrorIndex ''and'' 1 3
        (ConditionErrorMessage ''numeric_state'' ''value 12 is not below 10'')) =
       Inr ''In 'and' (item 2 of 3):\<newline>  In 'numeric_state' condition: value 12 is not below 10''"
proof -
  let ?t = "ConditionErrorIndex ''and'' 1 3
      (ConditionErrorMessage ''numeric_state'' ''value 12 is not below 10'')"
  have c: "concrete ?t" by simp
  have e: "str_join ''\<newline>'' (yielded (output_gen ?t 0)) =
      ''In 'and' (item 2 of 3):\<newline>  In 'numeric_state' condition: value 12 is not below 10''"
    by code_simp
  from ConditionError_str_join [OF c] e c
  show ?thesis by simp
qed

text \<open>
  Claim C9. For every tree and every indent level \<open>k \<ge> 0\<close>, \<open>output(k)\<close> yields as many
  lines as \<open>output(0)\<close>, its \<open>i\<close>-th line is the \<open>i\<close>-th line of \<open>output(0)\<close> after \<open>2k\<close>
  spaces, and both iterations end the same way.
\<close>

theorem output_indent_uniform:
  assumes "0 \<le> k"
  shows "length (yielded (output_gen t k)) = length (yielded (output_gen t 0))
         \<and> (\<forall>i < length (yielded (output_gen t 0)).
               yielded (output_gen t k) ! i =
                 replicate (nat (2 * k)) CHR '' '' @ yielded (output_gen t 0) ! i)
         \<and> raised (output_gen t k) = raised (output_gen t 0)"
  using output_shift [OF assms, of 0 t] by (simp add: yielded_def raised_def)

theorem output_indent_uniform_witness:
  "(0::int) \<le> 2
   \<and> length (yielded (output_gen (ConditionErrorIndex ''and'' 1 3
        (ConditionErrorContainer ''or'' [ConditionErrorMessage ''state'' ''off'',
           ConditionErrorIndex ''not'' 0 1 (ConditionErrorMessage ''time'' ''late'')])) 2)) = 4
   \<and> yielded (output_gen (ConditionErrorIndex ''and'' 1 3
        (ConditionErrorContainer ''or'' [ConditionErrorMessage ''state'' ''off'',
           ConditionErrorIndex ''not'' 0 1 (ConditionErrorMessage ''time'' ''late'')])) 2) ! 3 =
      ''    '' @ ''    In 'time' condition: late''"
proof -
  let ?t = "ConditionErrorIndex ''and'' 1 3
        (ConditionErrorContainer ''or'' [ConditionErrorMessage ''state'' ''off'',
           ConditionErrorIndex ''not'' 0 1 (ConditionErrorMessage ''time'' ''late'')])"
  have k: "(0::int) \<le> 2" by simp
  have l0: "yielded (output_gen ?t 0) =
      [''In 'and' (item 2 of 3):'', ''  In 'state' condition: off'', ''  In 'not':'',
       ''    In 'time' condition: late'']"
    by code_simp
  have sp: "replicate (nat (2 * 2)) CHR '' '' = ''    ''"
    by code_simp
  note u = output_indent_uniform [OF k, of ?t]
  from u l0 have "length (yielded (output_gen ?t 2)) = 4"
    by simp
  moreover from u l0 have "yielded (output_gen ?t 2) ! 3 =
      replicate (nat (2 * 2)) CHR '' '' @ ''    In 'time' condition: late''"
    by simp
  ultimately show ?thesis
    by (simp only: sp k simp_thms)
qed

text \<open>
  Claim C10. An index node is rendered for every integer index \<open>i\<close> and total \<open>n\<close>,
  whatever their relation: the header is \<open>In 't':\<close> whenever \<open>n \<le> 1\<close> (zero and
  negative totals included) and \<open>In 't' (item i+1 of n):\<close> whenever \<open>n > 1\<close>, with the
  numbers as supplied; the lines of the inner error follow, and the iteration ends
  normally when the inner error is a tree of message, index and container nodes.
\<close>

theorem ConditionErrorIndex_unvalidated:
  "(n \<le> 1 \<longrightarrow>
      yielded (output_gen (ConditionErrorIndex t i n e) k) =
        (replicate (2 * nat k) CHR '' '' @ ''In '' @ [squote] @ t @ [squote] @ '':'')
          # yielded (output_gen e (k + 1)))
   \<and> (1 < n \<longrightarrow>
      yielded (output_gen (ConditionErrorIndex t i n e) k) =
        (replicate (2 * nat k) CHR '' '' @ ''In '' @ [squote] @ t @ [squote] @ '' (item ''
           @ str_int (i + 1) @ '' of '' @ str_int n @ ''):'')
          # yielded (output_gen e (k + 1)))
   \<and> (concrete e \<longrightarrow> raised (output_gen (ConditionErrorIndex t i n e) k) = None)"
  by (simp add: yielded_def raised_def yield_then_def indent_spaces concrete_raised)

theorem ConditionErrorIndex_unvalidated_witness:
  "yielded (output_gen (ConditionErrorIndex ''and'' 5 0 (ConditionErrorMessage ''state'' ''off'')) 1) =
     [''  In 'and':'', ''    In 'state' condition: off'']
   \<and> yielded (output_gen (ConditionErrorIndex ''and'' 0 (- 3) (ConditionErrorMessage ''state'' ''off'')) 0) =
     [''In 'and':'', ''  In 'state' condition: off'']
   \<and> yielded (output_gen (ConditionErrorIndex ''and'' 7 2 (ConditionErrorMessage ''state'' ''off'')) 0) =
     [''In 'and' (item 8 of 2):'', ''  In 'state' condition: off'']
   \<and> raised (output_gen (ConditionErrorIndex ''and'' 7 2 (ConditionErrorMessage ''state'' ''off'')) 0) = None"
proof -
  let ?m = "ConditionErrorMessage ''state'' ''off''"
  have e1: "yielded (output_gen (ConditionErrorIndex ''and'' 5 0 ?m) 1) =
     [''  In 'and':'', ''    In 'state' condition: off'']"
    by code_simp
  have e2: "yielded (output_gen (ConditionErrorIndex ''and'' 0 (- 3) ?m) 0) =
     [''In 'and':'', ''  In 'state' condition: off'']"
    by code_simp
  have e3: "yielded (output_gen (ConditionErrorIndex ''and'' 7 2 ?m) 0) =
     [''In 'and' (item 8 of 2):'', ''  In 'state' condition: off'']"
    by code_simp
  have c: "concrete ?m" by simp
  from ConditionErrorIndex_unvalidated [of 0 "''and''" 5 ?m 1]
    ConditionErrorIndex_unvalidated [of "- 3" "''and''" 0 ?m 0]
    ConditionErrorIndex_unvalidated [of 2 "''and''" 7 ?m 0] c
  have "raised (output_gen (ConditionErrorIndex ''and'' 7 2 ?m) 0) = None"
    by simp
  with e1 e2 e3 show ?thesis by simp
qed

section \<open>String forms of the taxonomy\<close>

text \<open>
  The string form of a \<open>MaxLengthExceeded\<close> error, for any arguments: the \<open>repr\<close> of
  the pair of the exception and the message.
\<close>

lemma MaxLengthExceeded_str_general:
  "BaseException_str (MaxLengthExceeded_init v p l) =
     Inr (''(MaxLengthExceeded(...), ''
          @ repr_str (''Value '' @ v @ '' for property '' @ p @ '' has a max length of ''
                      @ str_int l @ '' characters'') @ '')'')"
  by (simp add: BaseException_str_def MaxLengthExceeded_init_def tuple_repr_def)

text \<open>
  Claim C5. \<open>MaxLengthExceeded("abc...", "name", 10)\<close> is claimed to have the string
  form \<open>Value abc... for property name has a max length of 10 characters\<close>. The
  constructor hands \<open>self\<close> and the message to \<open>super().__init__\<close>, so the string form
  is the \<open>repr\<close> of a pair and differs from the message.
\<close>

theorem MaxLengthExceeded_str_tuple:
  "BaseException_str (MaxLengthExceeded_init ''abc...'' ''name'' 10) =
     Inr ''(MaxLengthExceeded(...), 'Value abc... for property name has a max length of 10 characters')''
   \<and> BaseException_str (MaxLengthExceeded_init ''abc...'' ''name'' 10) \<noteq>
     Inr ''Value abc... for property name has a max length of 10 characters''"
  by code_simp

text \<open>
  The parts of claim C6 that the code meets: the string form of a \<open>PlatformNotReady\<close>,
  \<open>ConfigEntryNotReady\<close> or \<open>ConfigEntryAuthFailed\<close> error is its own message when
  that is not empty, and the string form of its cause when the message is empty and a
  cause is set.
\<close>

lemma IntegrationError_str_message_or_cause:
  "(BaseException_str e = Inr m \<and> m \<noteq> [] \<longrightarrow> IntegrationError_str e = Inr m)
   \<and> (BaseException_str e = Inr [] \<and> cause e = Some c \<longrightarrow> IntegrationError_str e = Inr c)
   \<and> (m \<noteq> [] \<longrightarrow>
        IntegrationError_str (IntegrationError_new cls [PyStr m]) = Inr m
        \<and> IntegrationError_str (raise_from (IntegrationError_new cls [PyStr m]) c) = Inr m)
   \<and> IntegrationError_str (raise_from (IntegrationError_new cls []) c) = Inr c"
  by (simp add: IntegrationError_str_def BaseException_str_def IntegrationError_new_def
      raise_from_def str_cause_def)

text \<open>
  Claim C6. An integration error with no message and no cause is claimed to have the
  empty string as its string form. \<open>__str__\<close> falls back to \<open>str(self.__cause__)\<close>
  without testing whether a cause is set, so for \<open>PlatformNotReady()\<close>, whose
  \<open>__cause__\<close> is \<open>None\<close>, it returns the text \<open>None\<close>.
\<close>

theorem IntegrationError_str_no_cause:
  "IntegrationError_str (IntegrationError_new PlatformNotReady []) = Inr ''None''
   \<and> IntegrationError_str (IntegrationError_new PlatformNotReady []) \<noteq> Inr []"
  by code_simp

text \<open>
  Claim C7. For an \<open>Unauthorized\<close> or \<open>UnknownUser\<close> error: with a context and no
  explicit \<open>user_id\<close>, the stored \<open>user_id\<close> is the context's; an explicit \<open>user_id\<close> is
  stored unchanged whatever the context; \<open>context\<close>, \<open>entity_id\<close>, \<open>config_entry_id\<close>,
  \<open>perm_category\<close> and \<open>permission\<close> are stored as passed; and the string form is the
  name of the class, \<open>UnknownUser\<close> for that class.
\<close>

theorem Unauthorized_fields:
  "Unauthorized_exc.user_id (Unauthorized_init cls (Some C) None eid ceid pcat perm) =
     Context.user_id C
   \<and> Unauthorized_exc.user_id (Unauthorized_init cls ctx (Some u) eid ceid pcat perm) = Some u
   \<and> context' (Unauthorized_init cls ctx uid eid ceid pcat perm) = ctx
   \<and> entity_id (Unauthorized_init cls ctx uid eid ceid pcat perm) = eid
   \<and> config_entry_id (Unauthorized_init cls ctx uid eid ceid pcat perm) = ceid
   \<and> perm_category (Unauthorized_init cls ctx uid eid ceid pcat perm) = pcat
   \<and> permission (Unauthorized_init cls ctx uid eid ceid pcat perm) = perm
   \<and> BaseException_str (Unauthorized_init cls ctx uid eid ceid pcat perm) =
       Inr (Unauthorized_name cls)
   \<and> BaseException_str (Unauthorized_init UnknownUser ctx uid eid ceid pcat perm) =
       Inr ''UnknownUser''"
  by (simp add: Unauthorized_init_def BaseException_str_def)

text \<open>
  The scenario of the specification: a context of user \<open>u1\<close> and the entity
  \<open>light.kitchen\<close>.
\<close>

lemma Unauthorized_scenario:
  "Unauthorized_exc.user_id (Unauthorized_init Unauthorized (Some \<lparr>Context.user_id = Some ''u1''\<rparr>)
      None (Some ''light.kitchen'') None None None) = Some ''u1''
   \<and> entity_id (Unauthorized_init Unauthorized (Some \<lparr>Context.user_id = Some ''u1''\<rparr>)
      None (Some ''light.kitchen'') None None None) = Some ''light.kitchen''
   \<and> BaseException_str (Unauthorized_init Unauthorized (Some \<lparr>Context.user_id = Some ''u1''\<rparr>)
      None (Some ''light.kitchen'') None None None) = Inr ''Unauthorized''"
  by (simp add: Unauthorized_init_def BaseException_str_def)

text \<open>
  Claim C8. \<open>ServiceNotFound(d, s)\<close> has the string form \<open>Unable to find service d.s\<close>
  and the fields \<open>domain = d\<close> and \<open>service = s\<close>; for \<open>light\<close> and \<open>turn_on\<close> the string
  form is \<open>Unable to find service light.turn_on\<close>.
\<close>

theorem ServiceNotFound_str_fields:
  "ServiceNotFound_str (ServiceNotFound_init d s) = ''Unable to find service '' @ d @ ''.'' @ s
   \<and> domain (ServiceNotFound_init d s) = d
   \<and> service (ServiceNotFound_init d s) = s
   \<and> ServiceNotFound_str (ServiceNotFound_init ''light'' ''turn_on'') =
       ''Unable to find service light.turn_on''"
  by (simp add: ServiceNotFound_str_def ServiceNotFound_init_def)

end
